theory Spec2Isabelle
  imports Complex_Main
begin

section \<open>The place recorder screen of App.tsx\<close>

text \<open>
  The screen is one React component. Its seven \<open>useState\<close> cells are the fields of the
  record \<open>app_state\<close>; every handler is a function from the state before the handler runs
  to the state after it, together with the list of effects it performed on the outside
  world, in order. Whatever a handler awaits (the HTTP client, the permission prompts, the
  position reading, the camera) is a parameter: a promise either rejects (\<open>Throws\<close>) or
  resolves with a value (\<open>Returns\<close>).

  A JavaScript \<open>number\<close> is modelled by the exact rational value of the finite double it
  holds; strings are lists of characters, of which the handlers only test emptiness and
  build concatenations.
\<close>

subsection \<open>Data\<close>

type_synonym number = rat

text \<open>\<open>type Place\<close>, lines 22 to 30; \<open>_id\<close> is \<open>place_id\<close>, an optional field is an option.\<close>

record place =
  place_id :: string
  place_title :: string
  place_description :: string
  place_latitude :: number
  place_longitude :: number
  place_photo :: "string option"
  place_createdAt :: "string option"

text \<open>The state cells of lines 33 to 39, under their own names.\<close>

record app_state =
  title :: string
  description :: string
  latitude :: "number option"
  longitude :: "number option"
  photo :: "string option"
  places :: "place list"
  loading :: bool

definition initial :: app_state where
  "initial = \<lparr>title = [], description = [], latitude = None, longitude = None,
     photo = None, places = [], loading = False\<rparr>"

text \<open>An awaited promise.\<close>

datatype 'a outcome = Throws | Returns 'a

text \<open>What the handlers read of a \<open>fetch\<close> response: \<open>res.ok\<close> and \<open>await res.json()\<close>.\<close>

record 'a response =
  ok :: bool
  json :: "'a outcome"

text \<open>The object serialised into the body of the POST, line 99.\<close>

record payload =
  body_title :: string
  body_description :: string
  body_latitude :: "number option"
  body_longitude :: "number option"
  body_photo :: "string option"

text \<open>The permission status of the location and camera modules (\<open>status !== 'granted'\<close>).\<close>

datatype permission_status = Granted | Denied | Undetermined

text \<open>\<open>location.coords\<close>, of which lines 63 and 64 read the two coordinates.\<close>

record location_coords =
  coords_latitude :: number
  coords_longitude :: number

text \<open>The camera's result: \<open>result.canceled\<close>, \<open>result.assets\<close> (null when cancelled), and of
  an asset its \<open>base64\<close> (optional) and its \<open>uri\<close>.\<close>

record asset =
  base64 :: "string option"
  uri :: string

record picker_result =
  canceled :: bool
  assets :: "asset list option"

text \<open>
  The seven modal alerts of the file, by the line that raises them:
  \<^item> \<open>LoadFailed\<close>: line 52, 'Erro', the records could not be loaded;
  \<^item> \<open>LocationDenied\<close>: line 59, 'Permissao negada', location access is needed;
  \<^item> \<open>CameraDenied\<close>: line 70, 'Permissao negada', camera access is needed;
  \<^item> \<open>Validation\<close>: line 90, 'Atencao', fill in title, description and capture the location;
  \<^item> \<open>SaveFailed\<close>: line 103, 'Erro', saving the record failed;
  \<^item> \<open>Saved\<close>: line 117, 'Sucesso', place saved;
  \<^item> \<open>ConnectionFailed\<close>: line 120, 'Erro', the connection to the backend failed.
\<close>

datatype alert = LoadFailed | LocationDenied | CameraDenied | Validation
  | SaveFailed | Saved | ConnectionFailed

text \<open>
  The effects of a handler: an \<open>Alert.alert\<close>, a \<open>console.error\<close>, the two HTTP requests,
  and a handler that ends by an exception nobody catches.
\<close>

datatype event = Alert alert | ConsoleError | HttpGet | HttpPost payload | Unhandled

subsection \<open>Handlers\<close>

text \<open>
  \<open>fetchPlaces\<close>, lines 45 to 54. The request is always sent. Both awaits are inside the
  \<open>try\<close>; \<open>res.ok\<close> is never read, so whatever body parses replaces the list.
\<close>

definition fetchPlaces :: "place list response outcome \<Rightarrow> app_state \<Rightarrow> app_state \<times> event list" where
  "fetchPlaces get s =
     (case get of
        Throws \<Rightarrow> (s, [HttpGet, ConsoleError, Alert LoadFailed])
      | Returns res \<Rightarrow>
          (case json res of
             Throws \<Rightarrow> (s, [HttpGet, ConsoleError, Alert LoadFailed])
           | Returns data \<Rightarrow> (s\<lparr>places := data\<rparr>, [HttpGet])))"

text \<open>\<open>getLocation\<close>, lines 56 to 65. Nothing is caught: a rejected await ends the handler.\<close>

definition getLocation ::
  "permission_status outcome \<Rightarrow> location_coords outcome \<Rightarrow> app_state \<Rightarrow> app_state \<times> event list" where
  "getLocation perm pos s =
     (case perm of
        Throws \<Rightarrow> (s, [Unhandled])
      | Returns status \<Rightarrow>
          if status \<noteq> Granted then (s, [Alert LocationDenied])
          else (case pos of
                  Throws \<Rightarrow> (s, [Unhandled])
                | Returns c \<Rightarrow>
                    (s\<lparr>latitude := Some (coords_latitude c),
                       longitude := Some (coords_longitude c)\<rparr>, [])))"

text \<open>
  \<open>takePhoto\<close>, lines 67 to 86. A string is truthy when it is not empty, so \<open>asset.base64\<close>
  counts when it is present and not empty, and so does \<open>asset.uri\<close>.
\<close>

definition takePhoto ::
  "permission_status outcome \<Rightarrow> picker_result outcome \<Rightarrow> app_state \<Rightarrow> app_state \<times> event list" where
  "takePhoto perm cam s =
     (case perm of
        Throws \<Rightarrow> (s, [Unhandled])
      | Returns status \<Rightarrow>
          if status \<noteq> Granted then (s, [Alert CameraDenied])
          else (case cam of
                  Throws \<Rightarrow> (s, [Unhandled])
                | Returns result \<Rightarrow>
                    if canceled result then (s, [])
                    else (case assets result of
                            Some (a # rest) \<Rightarrow>
                              (case base64 a of
                                 Some (c # cs) \<Rightarrow>
                                   (s\<lparr>photo := Some (''data:image/jpeg;base64,'' @ c # cs)\<rparr>, [])
                               | _ \<Rightarrow>
                                   if uri a \<noteq> [] then (s\<lparr>photo := Some (uri a)\<rparr>, [])
                                   else (s, []))
                          | _ \<Rightarrow> (s, []))))"

text \<open>
  \<open>handleSave\<close>, lines 88 to 124. The guard of line 89 returns before the \<open>try\<close>. Inside
  it, \<open>setLoading(true)\<close> comes first and the \<open>finally\<close> block closes every path with
  \<open>setLoading(false)\<close>; an exception of \<open>fetch\<close> or of \<open>res.json()\<close> goes to the \<open>catch\<close>.
\<close>

definition handleSave ::
  "(payload \<Rightarrow> place response outcome) \<Rightarrow> app_state \<Rightarrow> app_state \<times> event list" where
  "handleSave post s =
     (if title s = [] \<or> description s = [] \<or> latitude s = None \<or> longitude s = None
      then (s, [Alert Validation])
      else
        let s1 = s\<lparr>loading := True\<rparr>;
            body = \<lparr>body_title = title s, body_description = description s,
                    body_latitude = latitude s, body_longitude = longitude s,
                    body_photo = photo s\<rparr>
        in (case post body of
              Throws \<Rightarrow>
                (s1\<lparr>loading := False\<rparr>, [HttpPost body, ConsoleError, Alert ConnectionFailed])
            | Returns res \<Rightarrow>
                if \<not> ok res then (s1\<lparr>loading := False\<rparr>, [HttpPost body, Alert SaveFailed])
                else (case json res of
                        Throws \<Rightarrow>
                          (s1\<lparr>loading := False\<rparr>,
                           [HttpPost body, ConsoleError, Alert ConnectionFailed])
                      | Returns created \<Rightarrow>
                          (s1\<lparr>places := created # places s1, title := [], description := [],
                              latitude := None, longitude := None, photo := None,
                              loading := False\<rparr>,
                           [HttpPost body, Alert Saved]))))"

text \<open>
  The screen as a whole: the effect on mount, the three buttons, the two text inputs
  (\<open>onChangeText={setTitle}\<close>, \<open>onChangeText={setDescription}\<close>, lines 136 and 143) and the
  control that removes the photo (\<open>setPhoto(null)\<close>, line 173).
\<close>

datatype action =
    FetchPlaces "place list response outcome"
  | GetLocation "permission_status outcome" "location_coords outcome"
  | TakePhoto "permission_status outcome" "picker_result outcome"
  | HandleSave "payload \<Rightarrow> place response outcome"
  | SetTitle string
  | SetDescription string
  | RemovePhoto

fun step :: "app_state \<Rightarrow> action \<Rightarrow> app_state" where
  "step s (FetchPlaces get) = fst (fetchPlaces get s)"
| "step s (GetLocation perm pos) = fst (getLocation perm pos s)"
| "step s (TakePhoto perm cam) = fst (takePhoto perm cam s)"
| "step s (HandleSave post) = fst (handleSave post s)"
| "step s (SetTitle t) = s\<lparr>title := t\<rparr>"
| "step s (SetDescription d) = s\<lparr>description := d\<rparr>"
| "step s RemovePhoto = s\<lparr>photo := None\<rparr>"

definition run :: "action list \<Rightarrow> app_state" where
  "run acts = foldl step initial acts"

subsection \<open>Coordinate text of a list item\<close>

text \<open>The decimal digits of a natural number, most significant first.\<close>

definition digit :: "nat \<Rightarrow> char" where
  "digit d = ''0123456789'' ! d"

fun digits :: "nat \<Rightarrow> string" where
  "digits n = (if n < 10 then [digit n] else digits (n div 10) @ [digit (n mod 10)])"

declare digits.simps [simp del]

text \<open>
  \<open>Number.prototype.toFixed\<close> as ECMA-262 gives it for a finite number. More than 100
  fraction digits is a \<open>RangeError\<close>; from \<open>10^21\<close> on the result is the exponent notation of
  \<open>ToString\<close>, which is not modelled. Otherwise \<open>n\<close> is the integer closest to
  \<open>x * 10^f\<close> for the absolute value \<open>x\<close>, the larger one of two; its digits are padded with
  zeros to \<open>f + 1\<close> places and the point is put before the last \<open>f\<close>.
\<close>

datatype fixed_result = Fixed string | RangeError | Exponent

definition toFixed :: "nat \<Rightarrow> number \<Rightarrow> fixed_result" where
  "toFixed f v =
     (if f > 100 then RangeError
      else
        let s = (if v < 0 then ''-'' else []);
            x = (if v < 0 then - v else v)
        in if x \<ge> 10 ^ 21 then Exponent
           else
             let n = nat \<lfloor>x * 10 ^ f + 1 / 2\<rfloor>;
                 m = (if n = 0 then ''0'' else digits n);
                 m = (if f \<noteq> 0
                      then let m = (if length m \<le> f
                                    then replicate (f + 1 - length m) (CHR ''0'') @ m else m);
                               k = length m
                           in take (k - f) m @ ''.'' @ drop (k - f) m
                      else m)
             in Fixed (s @ m))"

text \<open>
  The text of lines 207 to 209 in \<open>renderItem\<close>: the two coordinates with four fraction
  digits, a comma and a space between them.
\<close>

definition renderItem_coords :: "place \<Rightarrow> string option" where
  "renderItem_coords item =
     (case (toFixed 4 (place_latitude item), toFixed 4 (place_longitude item)) of
        (Fixed a, Fixed b) \<Rightarrow> Some (a @ '', '' @ b)
      | _ \<Rightarrow> None)"

section \<open>Properties\<close>

subsection \<open>Submission\<close>

text \<open>
  Claim C1. When the draft passes the guard, the POST resolves with a success response and
  its body parses to a record \<open>created\<close>, the handler puts \<open>created\<close> in front of the list
  (the list grows by exactly one and its head is the server's record) and resets title,
  description, latitude, longitude and photo to their empty values; it then shows the
  success alert.
\<close>

theorem handleSave_success:
  assumes "title s \<noteq> []" and "description s \<noteq> []"
    and "latitude s \<noteq> None" and "longitude s \<noteq> None"
    and "post \<lparr>body_title = title s, body_description = description s,
               body_latitude = latitude s, body_longitude = longitude s,
               body_photo = photo s\<rparr> = Returns res"
    and "ok res" and "json res = Returns created"
  shows "handleSave post s =
           (\<lparr>title = [], description = [], latitude = None, longitude = None, photo = None,
             places = created # places s, loading = False\<rparr>,
            [HttpPost \<lparr>body_title = title s, body_description = description s,
               body_latitude = latitude s, body_longitude = longitude s,
               body_photo = photo s\<rparr>, Alert Saved])
         \<and> length (places (fst (handleSave post s))) = length (places s) + 1
         \<and> hd (places (fst (handleSave post s))) = created"
  using assms by (simp add: handleSave_def Let_def)

theorem handleSave_success_witness:
  "handleSave (\<lambda>b. Returns \<lparr>ok = True, json = Returns
       \<lparr>place_id = ''abc'', place_title = body_title b, place_description = body_description b,
        place_latitude = - 812 / 100, place_longitude = - 349 / 10, place_photo = None,
        place_createdAt = Some ''2024-01-01T00:00:00Z''\<rparr>\<rparr>)
     \<lparr>title = ''Praia de Boa Viagem'', description = ''Linda'', latitude = Some (- 812 / 100),
      longitude = Some (- 349 / 10), photo = None, places = [], loading = False\<rparr>
   = (\<lparr>title = [], description = [], latitude = None, longitude = None, photo = None,
       places = [\<lparr>place_id = ''abc'', place_title = ''Praia de Boa Viagem'',
         place_description = ''Linda'', place_latitude = - 812 / 100,
         place_longitude = - 349 / 10, place_photo = None,
         place_createdAt = Some ''2024-01-01T00:00:00Z''\<rparr>], loading = False\<rparr>,
      [HttpPost \<lparr>body_title = ''Praia de Boa Viagem'', body_description = ''Linda'',
         body_latitude = Some (- 812 / 100), body_longitude = Some (- 349 / 10),
         body_photo = None\<rparr>, Alert Saved])"
  using handleSave_success [of
     "\<lparr>title = ''Praia de Boa Viagem'', description = ''Linda'', latitude = Some (- 812 / 100),
      longitude = Some (- 349 / 10), photo = None, places = [], loading = False\<rparr>"
     "\<lambda>b. Returns \<lparr>ok = True, json = Returns
       \<lparr>place_id = ''abc'', place_title = body_title b, place_description = body_description b,
        place_latitude = - 812 / 100, place_longitude = - 349 / 10, place_photo = None,
        place_createdAt = Some ''2024-01-01T00:00:00Z''\<rparr>\<rparr>"
     "\<lparr>ok = True, json = Returns
       \<lparr>place_id = ''abc'', place_title = ''Praia de Boa Viagem'', place_description = ''Linda'',
        place_latitude = - 812 / 100, place_longitude = - 349 / 10, place_photo = None,
        place_createdAt = Some ''2024-01-01T00:00:00Z''\<rparr>\<rparr>"
     "\<lparr>place_id = ''abc'', place_title = ''Praia de Boa Viagem'', place_description = ''Linda'',
        place_latitude = - 812 / 100, place_longitude = - 349 / 10, place_photo = None,
        place_createdAt = Some ''2024-01-01T00:00:00Z''\<rparr>"]
  by simp

text \<open>
  Claim C2. When the title is empty, the description is empty, the latitude is absent or
  the longitude is absent, the handler sends no request, shows the validation alert and
  leaves the whole state (draft, list, loading flag) as it was: its only effect is that
  alert. The photo is not required: a draft with the four fields and no photo gets past
  the guard, and the first effect is the POST of that draft.
\<close>

theorem handleSave_validation:
  "(title s = [] \<or> description s = [] \<or> latitude s = None \<or> longitude s = None \<longrightarrow>
      handleSave post s = (s, [Alert Validation]))
   \<and> (title s \<noteq> [] \<and> description s \<noteq> [] \<and> latitude s \<noteq> None \<and> longitude s \<noteq> None \<longrightarrow>
      hd (snd (handleSave post (s\<lparr>photo := None\<rparr>))) =
        HttpPost \<lparr>body_title = title s, body_description = description s,
          body_latitude = latitude s, body_longitude = longitude s, body_photo = None\<rparr>)"
  by (auto simp: handleSave_def Let_def split: outcome.splits)

theorem handleSave_validation_witness:
  "handleSave (\<lambda>b. Throws)
     \<lparr>title = ''Praia'', description = ''Linda'', latitude = Some 1, longitude = None,
      photo = Some ''file:///p.jpg'', places = [], loading = False\<rparr>
   = (\<lparr>title = ''Praia'', description = ''Linda'', latitude = Some 1, longitude = None,
      photo = Some ''file:///p.jpg'', places = [], loading = False\<rparr>, [Alert Validation])
   \<and> hd (snd (handleSave (\<lambda>b. Throws)
     \<lparr>title = ''Praia'', description = ''Linda'', latitude = Some 1, longitude = Some 2,
      photo = None, places = [], loading = False\<rparr>))
   = HttpPost \<lparr>body_title = ''Praia'', body_description = ''Linda'',
          body_latitude = Some 1, body_longitude = Some 2, body_photo = None\<rparr>"
  using handleSave_validation [of
      "\<lparr>title = ''Praia'', description = ''Linda'', latitude = Some 1, longitude = None,
        photo = Some ''file:///p.jpg'', places = [], loading = False\<rparr>" "\<lambda>b. Throws"]
    handleSave_validation [of
      "\<lparr>title = ''Praia'', description = ''Linda'', latitude = Some 1, longitude = Some 2,
        photo = None, places = [], loading = False\<rparr>" "\<lambda>b. Throws"]
  by simp

text \<open>
  Claim C3. When a submission that passed the guard fails, because \<open>fetch\<close> throws or
  because the response is not a success, the list and every draft field stay as they were:
  the state afterwards is the state before with the loading flag false, and a failure
  alert is shown (the connection alert after an exception, the save alert after a
  non-success response). A success response whose body does not parse goes the way of the
  exception.
\<close>

theorem handleSave_failure:
  assumes "title s \<noteq> []" and "description s \<noteq> []"
    and "latitude s \<noteq> None" and "longitude s \<noteq> None"
    and "body = \<lparr>body_title = title s, body_description = description s,
               body_latitude = latitude s, body_longitude = longitude s,
               body_photo = photo s\<rparr>"
  shows "(post body = Throws \<longrightarrow>
            handleSave post s =
              (s\<lparr>loading := False\<rparr>, [HttpPost body, ConsoleError, Alert ConnectionFailed]))
       \<and> (post body = Returns res \<and> \<not> ok res \<longrightarrow>
            handleSave post s = (s\<lparr>loading := False\<rparr>, [HttpPost body, Alert SaveFailed]))
       \<and> (post body = Returns res \<and> ok res \<and> json res = Throws \<longrightarrow>
            handleSave post s =
              (s\<lparr>loading := False\<rparr>, [HttpPost body, ConsoleError, Alert ConnectionFailed]))"
  using assms by (auto simp: handleSave_def Let_def)

theorem handleSave_failure_witness:
  "handleSave (\<lambda>b. Throws)
     \<lparr>title = ''Praia'', description = ''Linda'', latitude = Some 1, longitude = Some 2,
      photo = Some ''file:///p.jpg'', places = [], loading = False\<rparr>
   = (\<lparr>title = ''Praia'', description = ''Linda'', latitude = Some 1, longitude = Some 2,
      photo = Some ''file:///p.jpg'', places = [], loading = False\<rparr>,
      [HttpPost \<lparr>body_title = ''Praia'', body_description = ''Linda'',
          body_latitude = Some 1, body_longitude = Some 2, body_photo = Some ''file:///p.jpg''\<rparr>,
       ConsoleError, Alert ConnectionFailed])
   \<and> handleSave (\<lambda>b. Returns \<lparr>ok = False, json = Throws\<rparr>)
     \<lparr>title = ''Praia'', description = ''Linda'', latitude = Some 1, longitude = Some 2,
      photo = Some ''file:///p.jpg'', places = [], loading = False\<rparr>
   = (\<lparr>title = ''Praia'', description = ''Linda'', latitude = Some 1, longitude = Some 2,
      photo = Some ''file:///p.jpg'', places = [], loading = False\<rparr>,
      [HttpPost \<lparr>body_title = ''Praia'', body_description = ''Linda'',
          body_latitude = Some 1, body_longitude = Some 2, body_photo = Some ''file:///p.jpg''\<rparr>,
       Alert SaveFailed])
   \<and> handleSave (\<lambda>b. Returns \<lparr>ok = True, json = Throws\<rparr>)
     \<lparr>title = ''Praia'', description = ''Linda'', latitude = Some 1, longitude = Some 2,
      photo = Some ''file:///p.jpg'', places = [], loading = False\<rparr>
   = (\<lparr>title = ''Praia'', description = ''Linda'', latitude = Some 1, longitude = Some 2,
      photo = Some ''file:///p.jpg'', places = [], loading = False\<rparr>,
      [HttpPost \<lparr>body_title = ''Praia'', body_description = ''Linda'',
          body_latitude = Some 1, body_longitude = Some 2, body_photo = Some ''file:///p.jpg''\<rparr>,
       ConsoleError, Alert ConnectionFailed])"
  using handleSave_failure [of
      "\<lparr>title = ''Praia'', description = ''Linda'', latitude = Some 1, longitude = Some 2,
        photo = Some ''file:///p.jpg'', places = [], loading = False\<rparr>"
      "\<lparr>body_title = ''Praia'', body_description = ''Linda'',
          body_latitude = Some 1, body_longitude = Some 2, body_photo = Some ''file:///p.jpg''\<rparr>"
      "\<lambda>b. Throws"]
    handleSave_failure [of
      "\<lparr>title = ''Praia'', description = ''Linda'', latitude = Some 1, longitude = Some 2,
        photo = Some ''file:///p.jpg'', places = [], loading = False\<rparr>"
      "\<lparr>body_title = ''Praia'', body_description = ''Linda'',
          body_latitude = Some 1, body_longitude = Some 2, body_photo = Some ''file:///p.jpg''\<rparr>"
      "\<lambda>b. Returns \<lparr>ok = False, json = Throws\<rparr>" "\<lparr>ok = False, json = Throws\<rparr>"]
    handleSave_failure [of
      "\<lparr>title = ''Praia'', description = ''Linda'', latitude = Some 1, longitude = Some 2,
        photo = Some ''file:///p.jpg'', places = [], loading = False\<rparr>"
      "\<lparr>body_title = ''Praia'', body_description = ''Linda'',
          body_latitude = Some 1, body_longitude = Some 2, body_photo = Some ''file:///p.jpg''\<rparr>"
      "\<lambda>b. Returns \<lparr>ok = True, json = Throws\<rparr>" "\<lparr>ok = True, json = Throws\<rparr>"]
  by simp

text \<open>
  Claim C8. Whenever the draft passes the guard, the loading flag is false when the handler
  is done, whatever the remote service answers: a created record, a non-success response,
  or an exception.
\<close>

theorem handleSave_loading_cleared:
  "title s \<noteq> [] \<Longrightarrow> description s \<noteq> [] \<Longrightarrow> latitude s \<noteq> None \<Longrightarrow> longitude s \<noteq> None
     \<Longrightarrow> loading (fst (handleSave post s)) = False"
  by (auto simp: handleSave_def Let_def split: outcome.splits)

theorem handleSave_loading_cleared_witness:
  "loading (fst (handleSave (\<lambda>b. Returns \<lparr>ok = False, json = Throws\<rparr>)
     \<lparr>title = ''Praia'', description = ''Linda'', latitude = Some 1, longitude = Some 2,
      photo = None, places = [], loading = True\<rparr>)) = False"
  using handleSave_loading_cleared [of
      "\<lparr>title = ''Praia'', description = ''Linda'', latitude = Some 1, longitude = Some 2,
        photo = None, places = [], loading = True\<rparr>"
      "\<lambda>b. Returns \<lparr>ok = False, json = Throws\<rparr>"]
  by simp

text \<open>
  Claim C10. A draft with a title, a description and both coordinates exactly 0 passes the
  guard: the coordinates are compared with null, so 0 counts as present. The first effect
  of the handler is the POST carrying the two zeros, and no validation alert is shown.
\<close>

theorem handleSave_zero_coordinates:
  "title s \<noteq> [] \<Longrightarrow> description s \<noteq> [] \<Longrightarrow> latitude s = Some 0 \<Longrightarrow> longitude s = Some 0
     \<Longrightarrow> hd (snd (handleSave post s)) =
           HttpPost \<lparr>body_title = title s, body_description = description s,
             body_latitude = Some 0, body_longitude = Some 0, body_photo = photo s\<rparr>
         \<and> Alert Validation \<notin> set (snd (handleSave post s))"
  by (simp add: handleSave_def Let_def split: outcome.splits)

theorem handleSave_zero_coordinates_witness:
  "hd (snd (handleSave (\<lambda>b. Throws)
     \<lparr>title = ''Null Island'', description = ''Buoy'', latitude = Some 0, longitude = Some 0,
      photo = None, places = [], loading = False\<rparr>))
   = HttpPost \<lparr>body_title = ''Null Island'', body_description = ''Buoy'',
       body_latitude = Some 0, body_longitude = Some 0, body_photo = None\<rparr>
   \<and> Alert Validation \<notin> set (snd (handleSave (\<lambda>b. Throws)
     \<lparr>title = ''Null Island'', description = ''Buoy'', latitude = Some 0, longitude = Some 0,
      photo = None, places = [], loading = False\<rparr>))"
  using handleSave_zero_coordinates [of
      "\<lparr>title = ''Null Island'', description = ''Buoy'', latitude = Some 0, longitude = Some 0,
        photo = None, places = [], loading = False\<rparr>" "\<lambda>b. Throws"]
  by simp

subsection \<open>Photo capture\<close>

text \<open>
  Claim C5. For a capture that is not cancelled and whose first asset carries a base64
  payload (present and not empty), the stored photo is the data URI made of
  \<open>data:image/jpeg;base64,\<close> and the payload, whatever the asset's raw URI is; so the
  stored value is never a raw URI that differs from that data URI. The raw URI is stored
  only in the other case, when the payload is absent (null or the empty string) and the
  URI is not empty.
\<close>

theorem takePhoto_prefers_base64:
  assumes "\<not> canceled result" and "assets result = Some (a # rest)"
  shows "(base64 a = Some b \<and> b \<noteq> [] \<longrightarrow>
            takePhoto (Returns Granted) (Returns result) s =
              (s\<lparr>photo := Some (''data:image/jpeg;base64,'' @ b)\<rparr>, []))
       \<and> (base64 a = Some b \<and> b \<noteq> [] \<and> uri a \<noteq> ''data:image/jpeg;base64,'' @ b \<longrightarrow>
            photo (fst (takePhoto (Returns Granted) (Returns result) s)) \<noteq> Some (uri a))
       \<and> ((base64 a = None \<or> base64 a = Some []) \<and> uri a \<noteq> [] \<longrightarrow>
            takePhoto (Returns Granted) (Returns result) s = (s\<lparr>photo := Some (uri a)\<rparr>, []))"
  using assms by (auto simp: takePhoto_def split: option.splits list.splits)

theorem takePhoto_prefers_base64_witness:
  "takePhoto (Returns Granted)
     (Returns \<lparr>canceled = False,
        assets = Some [\<lparr>base64 = Some ''QUJD'', uri = ''file:///cache/p.jpg''\<rparr>]\<rparr>) initial
   = (initial\<lparr>photo := Some ''data:image/jpeg;base64,QUJD''\<rparr>, [])
   \<and> photo (fst (takePhoto (Returns Granted)
     (Returns \<lparr>canceled = False,
        assets = Some [\<lparr>base64 = Some ''QUJD'', uri = ''file:///cache/p.jpg''\<rparr>]\<rparr>) initial))
     \<noteq> Some ''file:///cache/p.jpg''
   \<and> takePhoto (Returns Granted)
     (Returns \<lparr>canceled = False,
        assets = Some [\<lparr>base64 = None, uri = ''file:///cache/p.jpg''\<rparr>]\<rparr>) initial
   = (initial\<lparr>photo := Some ''file:///cache/p.jpg''\<rparr>, [])"
  using takePhoto_prefers_base64 [of
      "\<lparr>canceled = False,
        assets = Some [\<lparr>base64 = Some ''QUJD'', uri = ''file:///cache/p.jpg''\<rparr>]\<rparr>"
      "\<lparr>base64 = Some ''QUJD'', uri = ''file:///cache/p.jpg''\<rparr>" "[]" "''QUJD''" initial]
    takePhoto_prefers_base64 [of
      "\<lparr>canceled = False,
        assets = Some [\<lparr>base64 = None, uri = ''file:///cache/p.jpg''\<rparr>]\<rparr>"
      "\<lparr>base64 = None, uri = ''file:///cache/p.jpg''\<rparr>" "[]" "''QUJD''" initial]
  by simp

text \<open>
  Claim C6. When the camera permission is granted and the user cancels the capture, the
  photo (and the rest of the state) is what it was and the handler has no effect at all:
  no alert is shown.
\<close>

theorem takePhoto_cancelled:
  "canceled result \<Longrightarrow> takePhoto (Returns Granted) (Returns result) s = (s, [])"
  by (simp add: takePhoto_def)

theorem takePhoto_cancelled_witness:
  "takePhoto (Returns Granted) (Returns \<lparr>canceled = True, assets = None\<rparr>)
     \<lparr>title = ''Praia'', description = [], latitude = None, longitude = None,
      photo = Some ''file:///cache/old.jpg'', places = [], loading = False\<rparr>
   = (\<lparr>title = ''Praia'', description = [], latitude = None, longitude = None,
      photo = Some ''file:///cache/old.jpg'', places = [], loading = False\<rparr>, [])"
  using takePhoto_cancelled [of "\<lparr>canceled = True, assets = None\<rparr>"
      "\<lparr>title = ''Praia'', description = [], latitude = None, longitude = None,
        photo = Some ''file:///cache/old.jpg'', places = [], loading = False\<rparr>"]
  by simp

subsection \<open>The two coordinates of the draft\<close>

lemma coords_paired_step:
  "(latitude s = None \<longleftrightarrow> longitude s = None) \<Longrightarrow>
   (latitude (step s a) = None \<longleftrightarrow> longitude (step s a) = None)"
  by (cases a)
     (auto simp: fetchPlaces_def getLocation_def takePhoto_def handleSave_def Let_def
           split: outcome.splits option.splits list.splits if_splits)

lemma coords_paired_foldl:
  "(latitude s = None \<longleftrightarrow> longitude s = None) \<Longrightarrow>
   (latitude (foldl step s acts) = None \<longleftrightarrow> longitude (foldl step s acts) = None)"
proof (induction acts arbitrary: s)
  case Nil
  then show ?case by simp
next
  case (Cons a acts)
  from Cons.prems have "latitude (step s a) = None \<longleftrightarrow> longitude (step s a) = None"
    by (rule coords_paired_step)
  then show ?case using Cons.IH by simp
qed

text \<open>
  Claim C9. The two coordinates of the draft are set or unset together: in the initial
  state and after any sequence of operations of the screen (list fetch, location capture,
  photo capture, submission, each with any answer of the outside world, edits of the two
  text fields and removal of the photo), the latitude is absent exactly when the longitude
  is absent.
\<close>

theorem coordinates_paired:
  "latitude (run acts) = None \<longleftrightarrow> longitude (run acts) = None"
  unfolding run_def by (rule coords_paired_foldl) (simp add: initial_def)

subsection \<open>Coordinate text\<close>

text \<open>
  The doubles nearest to the decimals 12.345678 and -38.123456: each is a 53-bit integer
  times a power of two and lies within half a unit in the last place of the decimal.
\<close>

lemma nearest_doubles:
  "\<bar>6949998855054516 / 2 ^ 49 - 12345678 / 10 ^ 6 :: rat\<bar> \<le> 1 / 2 ^ 50"
  "(2::int) ^ 52 \<le> 6949998855054516" "6949998855054516 < (2::int) ^ 53"
  "\<bar>- 5365399444864859 / 2 ^ 47 - (- 38123456 / 10 ^ 6) :: rat\<bar> \<le> 1 / 2 ^ 48"
  "(2::int) ^ 52 \<le> 5365399444864859" "5365399444864859 < (2::int) ^ 53"
  by simp_all

lemma digits_123457: "digits 123457 = ''123457''"
  by (simp add: digits.simps digit_def)

lemma digits_381235: "digits 381235 = ''381235''"
  by (simp add: digits.simps digit_def)

lemma toFixed_latitude_double: "toFixed 4 (6949998855054516 / 2 ^ 49) = Fixed ''12.3457''"
proof -
  have "\<lfloor>(6949998855054516 / 2 ^ 49 :: rat) * 10 ^ 4 + 1 / 2\<rfloor> = 123457"
    by (simp add: floor_eq_iff)
  then have n: "nat \<lfloor>(6949998855054516 / 2 ^ 49 :: rat) * 10 ^ 4 + 1 / 2\<rfloor> = 123457"
    by simp
  show ?thesis
    unfolding toFixed_def Let_def using n digits_123457 by simp
qed

lemma toFixed_latitude_decimal: "toFixed 4 (12345678 / 10 ^ 6) = Fixed ''12.3457''"
proof -
  have "\<lfloor>(12345678 / 10 ^ 6 :: rat) * 10 ^ 4 + 1 / 2\<rfloor> = 123457"
    by (simp add: floor_eq_iff)
  then have n: "nat \<lfloor>(12345678 / 10 ^ 6 :: rat) * 10 ^ 4 + 1 / 2\<rfloor> = 123457"
    by simp
  show ?thesis
    unfolding toFixed_def Let_def using n digits_123457 by simp
qed

lemma toFixed_longitude_double: "toFixed 4 (- 5365399444864859 / 2 ^ 47) = Fixed ''-38.1235''"
proof -
  have "\<lfloor>(5365399444864859 / 2 ^ 47 :: rat) * 10 ^ 4 + 1 / 2\<rfloor> = 381235"
    by (simp add: floor_eq_iff)
  then have n: "nat \<lfloor>(5365399444864859 / 2 ^ 47 :: rat) * 10 ^ 4 + 1 / 2\<rfloor> = 381235"
    by simp
  show ?thesis
    unfolding toFixed_def Let_def using n digits_381235 by simp
qed

lemma toFixed_longitude_decimal: "toFixed 4 (- 38123456 / 10 ^ 6) = Fixed ''-38.1235''"
proof -
  have "\<lfloor>(38123456 / 10 ^ 6 :: rat) * 10 ^ 4 + 1 / 2\<rfloor> = 381235"
    by (simp add: floor_eq_iff)
  then have n: "nat \<lfloor>(38123456 / 10 ^ 6 :: rat) * 10 ^ 4 + 1 / 2\<rfloor> = 381235"
    by simp
  show ?thesis
    unfolding toFixed_def Let_def using n digits_381235 by simp
qed

text \<open>
  Claim C7. For a list item with latitude 12.345678 and longitude -38.123456 the rendered
  coordinate text is exactly \<open>12.3457, -38.1235\<close>: four fraction digits each, rounded to the
  nearest. This holds for the two doubles the literals denote and for the exact decimals
  as well, whatever the other fields of the item are.
\<close>

theorem renderItem_coords_example:
  "renderItem_coords (item\<lparr>place_latitude := 6949998855054516 / 2 ^ 49,
      place_longitude := - 5365399444864859 / 2 ^ 47\<rparr>) = Some ''12.3457, -38.1235''
   \<and> renderItem_coords (item\<lparr>place_latitude := 12345678 / 10 ^ 6,
      place_longitude := - 38123456 / 10 ^ 6\<rparr>) = Some ''12.3457, -38.1235''"
  unfolding renderItem_coords_def
  using toFixed_latitude_double toFixed_longitude_double
    toFixed_latitude_decimal toFixed_longitude_decimal
  by simp

subsection \<open>Initial list fetch\<close>

lemma fetchPlaces_network_error:
  "fetchPlaces Throws s = (s, [HttpGet, ConsoleError, Alert LoadFailed])"
  by (simp add: fetchPlaces_def)

lemma fetchPlaces_unparsable_body:
  "json res = Throws \<Longrightarrow>
   fetchPlaces (Returns res) s = (s, [HttpGet, ConsoleError, Alert LoadFailed])"
  by (simp add: fetchPlaces_def)

text \<open>
  Claim C4. A failed list fetch should leave the list unchanged and surface an alert. The
  handler does so when \<open>fetch\<close> throws or the body does not parse
  (\<open>fetchPlaces_network_error\<close>, \<open>fetchPlaces_unparsable_body\<close>), with one request and no
  retry. A non-success response whose body parses is not treated as a failure: \<open>res.ok\<close> is
  not read, the body replaces the list and no alert is shown, as on this response.
\<close>

theorem fetchPlaces_ignores_status:
  "fetchPlaces (Returns \<lparr>ok = False, json = Returns
       [\<lparr>place_id = ''x'', place_title = ''t'', place_description = ''d'', place_latitude = 0,
         place_longitude = 0, place_photo = None, place_createdAt = None\<rparr>]\<rparr>) initial
   = (initial\<lparr>places := [\<lparr>place_id = ''x'', place_title = ''t'', place_description = ''d'',
         place_latitude = 0, place_longitude = 0, place_photo = None,
         place_createdAt = None\<rparr>]\<rparr>, [HttpGet])"
  by (simp add: fetchPlaces_def)

end
